theory Spec2Isabelle
  imports Main
begin

section \<open>Python values used by the scripts\<close>

text \<open>
  A Python \<open>str\<close> is a sequence of Unicode code points, so it is modelled as a list of
  natural numbers: \<open>len\<close> and slicing count code points, as in the source.
  \<open>pstr\<close> turns an ASCII literal into such a string.
\<close>

type_synonym pystr = "nat list"

definition pstr :: "string \<Rightarrow> pystr" where
  "pstr s = map of_char s"

text \<open>
  The values \<open>json.loads\<close> can return. An object keeps its members in source order.
  A number is an integer here: in everything modelled, a float behaves as an integer does
  (it has no length, no items and no keys).
\<close>

datatype json =
    JNull
  | JBool bool
  | JNum int
  | JStr pystr
  | JArr "json list"
  | JObj "(pystr \<times> json) list"

text \<open>The exceptions the modelled code can raise.\<close>

datatype py_error = KeyError | TypeError | IndexError | ValueError | JSONDecodeError

definition py_bind :: "py_error + 'a \<Rightarrow> ('a \<Rightarrow> py_error + 'b) \<Rightarrow> py_error + 'b" where
  "py_bind m f = (case m of Inl e \<Rightarrow> Inl e | Inr x \<Rightarrow> f x)"

text \<open>A comprehension or generator over a list: the first element that raises ends it.\<close>

fun py_map :: "('a \<Rightarrow> py_error + 'b) \<Rightarrow> 'a list \<Rightarrow> py_error + 'b list" where
  "py_map f [] = Inr []"
| "py_map f (x # xs) =
     (case f x of Inl e \<Rightarrow> Inl e
      | Inr y \<Rightarrow> (case py_map f xs of Inl e \<Rightarrow> Inl e | Inr ys \<Rightarrow> Inr (y # ys)))"

text \<open>\<open>k in s\<close> for two strings: \<open>k\<close> occurs in \<open>s\<close> as a contiguous run.\<close>

fun py_in_str :: "pystr \<Rightarrow> pystr \<Rightarrow> bool" where
  "py_in_str k [] = (k = [])"
| "py_in_str k (c # cs) = (take (length k) (c # cs) = k \<or> py_in_str k cs)"

text \<open>A dict built from members: a later member with the same key replaces the earlier.\<close>

definition dict_get :: "(pystr \<times> json) list \<Rightarrow> pystr \<Rightarrow> json option" where
  "dict_get kvs k = map_of (rev kvs) k"

definition dict_keys :: "(pystr \<times> json) list \<Rightarrow> pystr list" where
  "dict_keys kvs = remdups (map fst kvs)"

text \<open>\<open>k in v\<close> for a string \<open>k\<close>.\<close>

fun py_contains :: "pystr \<Rightarrow> json \<Rightarrow> py_error + bool" where
  "py_contains k (JObj kvs) = Inr (k \<in> set (map fst kvs))"
| "py_contains k (JArr xs) = Inr (JStr k \<in> set xs)"
| "py_contains k (JStr s) = Inr (py_in_str k s)"
| "py_contains k _ = Inl TypeError"

text \<open>\<open>v[k]\<close> for a string \<open>k\<close>.\<close>

fun py_getitem :: "json \<Rightarrow> pystr \<Rightarrow> py_error + json" where
  "py_getitem (JObj kvs) k = (case dict_get kvs k of None \<Rightarrow> Inl KeyError | Some v \<Rightarrow> Inr v)"
| "py_getitem _ k = Inl TypeError"

fun py_len :: "json \<Rightarrow> py_error + nat" where
  "py_len (JStr s) = Inr (length s)"
| "py_len (JArr xs) = Inr (length xs)"
| "py_len (JObj kvs) = Inr (length (dict_keys kvs))"
| "py_len _ = Inl TypeError"

text \<open>The elements a \<open>for\<close> loop over the value visits.\<close>

fun py_iter :: "json \<Rightarrow> py_error + json list" where
  "py_iter (JArr xs) = Inr xs"
| "py_iter (JStr s) = Inr (map (\<lambda>c. JStr [c]) s)"
| "py_iter (JObj kvs) = Inr (map JStr (dict_keys kvs))"
| "py_iter _ = Inl TypeError"

section \<open>fine-tune.py: validate\<close>

text \<open>
  The entries of \<open>errors\<close>. The line and message numbers are the ones the source
  formats into the text (\<open>i+1\<close>, \<open>j+1\<close>).
\<close>

datatype verr =
    InvalidJSON nat
  | MissingMessages nat
  | NeedTwoMessages nat
  | BadFirstRole nat json
  | MissingRoleOrContent nat nat

text \<open>What \<open>validate\<close> prints: the list of errors, or the token estimate.\<close>

datatype printed = ErrorsFound "verr list" | AllValid nat

text \<open>The loop of lines 56 to 58 over \<open>enumerate(messages)\<close>, from index \<open>j\<close>.\<close>

fun msg_errors :: "nat \<Rightarrow> nat \<Rightarrow> json list \<Rightarrow> py_error + verr list" where
  "msg_errors i j [] = Inr []"
| "msg_errors i j (msg # msgs) =
     py_bind (py_contains (pstr ''role'') msg) (\<lambda>has_role.
     py_bind (if \<not> has_role then Inr True
              else py_bind (py_contains (pstr ''content'') msg) (\<lambda>c. Inr (\<not> c))) (\<lambda>bad.
     py_bind (msg_errors i (j + 1) msgs) (\<lambda>es.
       Inr ((if bad then [MissingRoleOrContent (i + 1) (j + 1)] else []) @ es))))"

text \<open>Lines 52 to 58: the role of the first message, then every message's keys.\<close>

definition check_roles :: "nat \<Rightarrow> json \<Rightarrow> py_error + verr list" where
  "check_roles i messages =
     py_bind (py_iter messages) (\<lambda>ms.
     py_bind (py_map (\<lambda>m. py_getitem m (pstr ''role'')) ms) (\<lambda>roles.
     case roles of
       [] \<Rightarrow> Inl IndexError
     | r # _ \<Rightarrow>
         py_bind (msg_errors i 0 ms) (\<lambda>es.
           Inr ((if r \<noteq> JStr (pstr ''system'') \<and> r \<noteq> JStr (pstr ''user'')
                 then [BadFirstRole (i + 1) r] else []) @ es))))"

text \<open>Lines 47 to 58.\<close>

definition check_messages :: "nat \<Rightarrow> json \<Rightarrow> py_error + verr list" where
  "check_messages i messages =
     py_bind (py_len messages) (\<lambda>n.
       if n < 2 then Inr [NeedTwoMessages (i + 1)] else check_roles i messages)"

text \<open>Lines 43 to 58 for one parsed line: the errors it appends, or the exception.\<close>

definition check_data :: "nat \<Rightarrow> json \<Rightarrow> py_error + verr list" where
  "check_data i data =
     py_bind (py_contains (pstr ''messages'') data) (\<lambda>has.
       if \<not> has then Inr [MissingMessages (i + 1)]
       else py_bind (py_getitem data (pstr ''messages'')) (check_messages i))"

text \<open>
  The loop of lines 36 to 58. \<open>loads\<close> is \<open>json.loads\<close>: \<open>None\<close> when it raises
  \<open>JSONDecodeError\<close>.
\<close>

fun check_lines ::
  "(pystr \<Rightarrow> json option) \<Rightarrow> nat \<Rightarrow> pystr list \<Rightarrow> verr list \<Rightarrow> py_error + verr list" where
  "check_lines loads i [] errors = Inr errors"
| "check_lines loads i (line # lines) errors =
     (case loads line of
        None \<Rightarrow> check_lines loads (i + 1) lines (errors @ [InvalidJSON (i + 1)])
      | Some data \<Rightarrow>
          (case check_data i data of
             Inl e \<Rightarrow> Inl e
           | Inr es \<Rightarrow> check_lines loads (i + 1) lines (errors @ es)))"

text \<open>Line 70: \<open>sum(len(m["content"]) for m in data["messages"])\<close>.\<close>

definition line_chars :: "json \<Rightarrow> py_error + nat" where
  "line_chars data =
     py_bind (py_getitem data (pstr ''messages'')) (\<lambda>messages.
     py_bind (py_iter messages) (\<lambda>ms.
     py_bind (py_map (\<lambda>m. py_bind (py_getitem m (pstr ''content'')) py_len) ms) (\<lambda>ls.
       Inr (sum_list ls))))"

text \<open>The loop of lines 67 to 71.\<close>

fun count_tokens :: "(pystr \<Rightarrow> json option) \<Rightarrow> pystr list \<Rightarrow> nat \<Rightarrow> py_error + nat" where
  "count_tokens loads [] tokens = Inr tokens"
| "count_tokens loads (line # lines) tokens =
     (case loads line of
        None \<Rightarrow> Inl JSONDecodeError
      | Some data \<Rightarrow>
          (case line_chars data of
             Inl e \<Rightarrow> Inl e
           | Inr chars \<Rightarrow> count_tokens loads lines (tokens + chars div 4)))"

text \<open>
  \<open>validate\<close> on the lines of the training file: what it prints and the value it
  returns, or the exception that leaves it.
\<close>

definition validate :: "(pystr \<Rightarrow> json option) \<Rightarrow> pystr list \<Rightarrow> py_error + (printed \<times> bool)" where
  "validate loads lines =
     py_bind (check_lines loads 0 lines []) (\<lambda>errors.
     if errors \<noteq> [] then Inr (ErrorsFound errors, False)
     else py_bind (count_tokens loads lines 0) (\<lambda>tokens. Inr (AllValid tokens, True)))"


text \<open>The records the counterexamples and failing inputs below are about.\<close>

definition msg :: "string \<Rightarrow> pystr \<Rightarrow> json" where
  "msg role content = JObj [(pstr ''role'', JStr (pstr role)), (pstr ''content'', JStr content)]"

definition record_missing_role :: json where
  "record_missing_role =
     JObj [(pstr ''messages'',
       JArr [JObj [(pstr ''content'', JStr (pstr ''a''))], msg ''user'' (pstr ''b'')])]"



section \<open>fine-tune.py: train and the job identifier file\<close>



text \<open>The calls to the remote API, in the order they are made.\<close>

datatype net_call =
    FilesCreate "pystr list"
  | JobsCreate pystr
  | JobsRetrieve pystr
  | JobsList
  | ListEvents pystr

text \<open>
  What the commands read and change: the lines of \<open>training-data.jsonl\<close>, the text of
  \<open>.fine-tune-job\<close> (\<open>None\<close> while the file does not exist), and the network calls
  made so far.
\<close>

record world =
  training_file :: "pystr list"
  job_file :: "pystr option"
  calls :: "net_call list"

text \<open>The answers of the remote service to \<open>train\<close>: the uploaded file's id and the job's id.\<close>

record remote =
  file_id :: pystr
  job_id :: pystr

text \<open>\<open>train\<close>, lines 80 to 104.\<close>

definition train :: "(pystr \<Rightarrow> json option) \<Rightarrow> remote \<Rightarrow> world \<Rightarrow> py_error + world" where
  "train loads r w =
     py_bind (validate loads (training_file w)) (\<lambda>(out, ok).
       if \<not> ok then Inr w
       else Inr (w\<lparr>calls := calls w @ [FilesCreate (training_file w), JobsCreate (file_id r)],
                   job_file := Some (job_id r)\<rparr>))"





section \<open>fine-tune.py: watch\<close>

text \<open>
  One answer of the remote service to a poll: the job's status and the events
  \<open>list_events\<close> returns, each with its id and its message.
\<close>

record poll =
  job_status :: pystr
  events :: "(pystr \<times> pystr) list"

text \<open>
  What \<open>watch\<close> does, in order. \<open>ShowEvent\<close> is the \<open>print\<close> of line 194; it
  records the id of the event whose message is printed.
\<close>

datatype action =
    Retrieve pystr
  | GetEvents pystr
  | ShowEvent pystr pystr
  | ShowComplete
  | ShowFailed
  | Sleep nat

record wstate =
  seen_events :: "pystr set"
  trace :: "action list"

text \<open>The loop of lines 191 to 194 over the events, already reversed.\<close>

fun show_events :: "(pystr \<times> pystr) list \<Rightarrow> wstate \<Rightarrow> wstate" where
  "show_events [] s = s"
| "show_events ((eid, message) # es) s =
     (if eid \<notin> seen_events s
      then show_events es
             (s\<lparr>seen_events := insert eid (seen_events s),
                trace := trace s @ [ShowEvent eid message]\<rparr>)
      else show_events es s)"

text \<open>Lines 187 to 194: one poll of the job and its events.\<close>

definition poll_job :: "pystr \<Rightarrow> poll \<Rightarrow> wstate \<Rightarrow> wstate" where
  "poll_job jid p s =
     show_events (rev (events p)) (s\<lparr>trace := trace s @ [Retrieve jid, GetEvents jid]\<rparr>)"

definition emit :: "action \<Rightarrow> wstate \<Rightarrow> wstate" where
  "emit a s = s\<lparr>trace := trace s @ [a]\<rparr>"

text \<open>
  The loop of lines 186 to 204. \<open>answers k\<close> is what the remote service answers to the
  \<open>k\<close>-th poll. The loop has no bound: where it never breaks, the result is \<open>None\<close>.
\<close>

partial_function (option) watch_loop ::
  "(nat \<Rightarrow> poll) \<Rightarrow> pystr \<Rightarrow> nat \<Rightarrow> wstate \<Rightarrow> wstate option" where
  "watch_loop answers jid k s =
     (if job_status (answers k) = pstr ''succeeded''
        then Some (emit ShowComplete (poll_job jid (answers k) s))
      else if job_status (answers k) = pstr ''failed''
        then Some (emit ShowFailed (poll_job jid (answers k) s))
      else watch_loop answers jid (k + 1) (emit (Sleep 30) (poll_job jid (answers k) s)))"

text \<open>The state after the first \<open>n\<close> passes through the loop body (fewer if it broke).\<close>

fun watch_after :: "(nat \<Rightarrow> poll) \<Rightarrow> pystr \<Rightarrow> nat \<Rightarrow> nat \<Rightarrow> wstate \<Rightarrow> wstate" where
  "watch_after answers jid 0 k s = s"
| "watch_after answers jid (Suc n) k s =
     (if job_status (answers k) = pstr ''succeeded''
        then emit ShowComplete (poll_job jid (answers k) s)
      else if job_status (answers k) = pstr ''failed''
        then emit ShowFailed (poll_job jid (answers k) s)
      else watch_after answers jid n (k + 1) (emit (Sleep 30) (poll_job jid (answers k) s)))"

definition watch_start :: wstate where
  "watch_start = \<lparr>seen_events = {}, trace = []\<rparr>"

text \<open>The ids of the events whose messages a trace prints, and its other parts.\<close>

fun shown_ids :: "action list \<Rightarrow> pystr list" where
  "shown_ids [] = []"
| "shown_ids (ShowEvent eid message # as) = eid # shown_ids as"
| "shown_ids (a # as) = shown_ids as"

definition terminal :: "pystr \<Rightarrow> bool" where
  "terminal st \<longleftrightarrow> st = pstr ''succeeded'' \<or> st = pstr ''failed''"

text \<open>Every event id a trace shows is shown once, and the shown ids are the seen ones.\<close>

definition shown_once :: "wstate \<Rightarrow> bool" where
  "shown_once s \<longleftrightarrow> distinct (shown_ids (trace s)) \<and> set (shown_ids (trace s)) = seen_events s"

text \<open>Answers of the remote service used as examples below.\<close>

definition answers_one_running :: "nat \<Rightarrow> poll" where
  "answers_one_running k =
     (if k = 0 then \<lparr>job_status = pstr ''running'', events = [(pstr ''ev-1'', pstr ''Created'')]\<rparr>
      else \<lparr>job_status = pstr ''succeeded'',
             events = [(pstr ''ev-2'', pstr ''Done''), (pstr ''ev-1'', pstr ''Created'')]\<rparr>)"

definition answers_queued :: "nat \<Rightarrow> poll" where
  "answers_queued k = \<lparr>job_status = pstr ''queued'', events = []\<rparr>"



section \<open>The documented record format\<close>











section \<open>The generators: training records\<close>

text \<open>\<open>SYS\<close> of generate-training-data.py.\<close>

definition SYS_v1 :: pystr where
  \<open>SYS_v1 =
     pstr ''You are Aether, a world-class AI software engineer inside File '' @
     pstr ''Engine. You write production-quality code, debug systematically, and '' @
     pstr ''design with intention. Output code via ```language:filepath blocks. '' @
     pstr ''HTML must include <!DOCTYPE html>. Always mobile responsive. Brief '' @
     pstr ''intro then full code.''\<close>

text \<open>\<open>SYS\<close> of gen-v2-pages.py; gen-v3-master.py has the same text.\<close>

definition SYS_v2 :: pystr where
  \<open>SYS_v2 =
     pstr ''You are Aether, a world-class AI software engineer inside File '' @
     pstr ''Engine. You generate production-quality, visually stunning code with '' @
     pstr ''intentional design choices.'' @ [10, 10] @
     pstr ''RESPONSE FLOW: 1-2 line design plan stating aesthetic direction '' @ [8594] @
     pstr '' complete code '' @ [8594] @ pstr '' brief note after if needed.'' @ [10] @
     pstr ''RULES:'' @ [10] @
     pstr ''- Code blocks use ```html:filepath format. The :filepath is REQUIRED.'' @ [10] @
     pstr ''- HTML has <!DOCTYPE html>, viewport meta, ALL CSS in <style>, ALL JS '' @
     pstr ''in <script>'' @ [10] @
     pstr ''- Mobile responsive ALWAYS. Dark themes: #0a0a0f base, never pure '' @
     pstr ''black. Light themes: off-white, never #fff.'' @ [10] @
     pstr ''- COMPLETE code only. Zero placeholders, zero TODOs. Every file '' @
     pstr ''immediately runnable.'' @ [10] @ pstr ''- Every design choice is INTENTIONAL '' @
     [8212] @ pstr '' fonts, colors, spacing, animations all serve a purpose.''\<close>

text \<open>The dict the three \<open>ex\<close> helpers build.\<close>

definition example :: "pystr \<Rightarrow> pystr \<Rightarrow> pystr \<Rightarrow> json" where
  "example sys prompt response =
     JObj [(pstr ''messages'',
       JArr [msg ''system'' sys, msg ''user'' prompt, msg ''assistant'' response])]"

text \<open>generate-training-data.py, lines 18 and 19: \<open>ex\<close> returns the record.\<close>

definition ex_v1 :: "pystr \<Rightarrow> pystr \<Rightarrow> json" where
  "ex_v1 u a = example SYS_v1 u a"

text \<open>gen-v2-pages.py, lines 34 to 39: \<open>ex\<close> appends the record to the list of examples.\<close>

definition ex_v2 :: "pystr \<Rightarrow> pystr \<Rightarrow> json list \<Rightarrow> json list" where
  "ex_v2 prompt response examples = examples @ [example SYS_v2 prompt response]"

text \<open>
  gen-v3-master.py: the list of examples and \<open>seen_keys\<close>. Lines 40 to 51: \<open>ex\<close> appends
  the record unless the first 120 characters of the prompt were seen; it returns whether
  it appended.
\<close>

record gen_v3 =
  examples_v3 :: "json list"
  seen_keys :: "pystr set"

definition ex_v3 :: "pystr \<Rightarrow> pystr \<Rightarrow> gen_v3 \<Rightarrow> bool \<times> gen_v3" where
  "ex_v3 prompt response g =
     (if take 120 prompt \<in> seen_keys g then (False, g)
      else (True, g\<lparr>seen_keys := insert (take 120 prompt) (seen_keys g),
                     examples_v3 := examples_v3 g @ [example SYS_v2 prompt response]\<rparr>))"

text \<open>The roles and the contents of a record's messages, read as the scripts read them.\<close>

definition roles_of :: "json \<Rightarrow> py_error + json list" where
  "roles_of e =
     py_bind (py_getitem e (pstr ''messages'')) (\<lambda>messages.
     py_bind (py_iter messages) (py_map (\<lambda>m. py_getitem m (pstr ''role''))))"

definition contents_of :: "json \<Rightarrow> py_error + json list" where
  "contents_of e =
     py_bind (py_getitem e (pstr ''messages'')) (\<lambda>messages.
     py_bind (py_iter messages) (py_map (\<lambda>m. py_getitem m (pstr ''content''))))"

section \<open>The generators: merging and deduplication\<close>











text \<open>The state of gen-v3-master.py before the imports.\<close>

definition start_v3 :: gen_v3 where
  "start_v3 = \<lparr>examples_v3 = [], seen_keys = {}\<rparr>"


text \<open>
  The specification's words for the result of deduplication: an element stays exactly
  when no element before it has the same key.
\<close>

definition first_by_key :: "('a \<Rightarrow> 'k) \<Rightarrow> 'a list \<Rightarrow> 'a list" where
  "first_by_key key xs =
     map snd (filter (\<lambda>(i, x). key x \<notin> key ` set (take i xs)) (enumerate 0 xs))"







section \<open>The page generators: strings and dictionaries\<close>

text \<open>
  The fonts, palettes and business fields are dicts from strings to strings; a key that
  is not there raises \<open>KeyError\<close>.
\<close>

type_synonym strdict = "pystr \<Rightarrow> pystr option"

definition py_get :: "strdict \<Rightarrow> string \<Rightarrow> py_error + pystr" where
  "py_get d k = (case d (pstr k) of None \<Rightarrow> Inl KeyError | Some v \<Rightarrow> Inr v)"

text \<open>
  An f-string, or a sum of strings: the parts are evaluated from left to right, and the
  first that raises ends it.
\<close>

fun fstr :: "(py_error + pystr) list \<Rightarrow> py_error + pystr" where
  "fstr [] = Inr []"
| "fstr (part # parts) = py_bind part (\<lambda>s. py_bind (fstr parts) (\<lambda>t. Inr (s @ t)))"

text \<open>\<open>sep.join(...)\<close>.\<close>

fun py_join :: "pystr \<Rightarrow> pystr list \<Rightarrow> pystr" where
  "py_join sep [] = []"
| "py_join sep [s] = s"
| "py_join sep (s # t # ts) = s @ sep @ py_join sep (t # ts)"

text \<open>
  \<open>sep.join(f(x) for x in xs)\<close>; with an empty separator also a loop that appends
  \<open>f(x)\<close> to a string for every \<open>x\<close>.
\<close>

definition join_map :: "pystr \<Rightarrow> ('a \<Rightarrow> py_error + pystr) \<Rightarrow> 'a list \<Rightarrow> py_error + pystr" where
  "join_map sep f xs = py_bind (py_map f xs) (\<lambda>ss. Inr (py_join sep ss))"

text \<open>\<open>s.split(c)\<close> for a separator of one character \<open>c\<close>, and \<open>xs[0]\<close>.\<close>

fun py_split :: "nat \<Rightarrow> pystr \<Rightarrow> pystr list" where
  "py_split c [] = [[]]"
| "py_split c (x # xs) =
     (if x = c then [] # py_split c xs
      else (case py_split c xs of [] \<Rightarrow> [[x]] | w # ws \<Rightarrow> (x # w) # ws))"

definition py_first :: "'a list \<Rightarrow> py_error + 'a" where
  "py_first xs = (case xs of [] \<Rightarrow> Inl IndexError | x # _ \<Rightarrow> Inr x)"

text \<open>
  \<open>s.replace(old, new)\<close>: the occurrences of \<open>old\<close> from left to right, without
  overlap; an empty \<open>old\<close> matches before every character and at the end.
\<close>

fun replace_from :: "pystr \<Rightarrow> pystr \<Rightarrow> pystr \<Rightarrow> pystr" where
  "replace_from old new [] = []"
| "replace_from old new (c # cs) =
     (if take (length old) (c # cs) = old
      then new @ replace_from old new (drop (length old - 1) cs)
      else c # replace_from old new cs)"

definition py_replace :: "pystr \<Rightarrow> pystr \<Rightarrow> pystr \<Rightarrow> pystr" where
  "py_replace old new s =
     (if old = [] then new @ concat (map (\<lambda>c. c # new) s) else replace_from old new s)"

text \<open>
  The functions of the Python library that the pages use and that are not modelled:
  \<open>str.lower\<close>, \<open>str.upper\<close>, \<open>int(s, 16)\<close> (\<open>None\<close> when it raises \<open>ValueError\<close>)
  and the decimal text of an integer.
\<close>

record pylib =
  lower :: "pystr \<Rightarrow> pystr"
  upper :: "pystr \<Rightarrow> pystr"
  int16 :: "pystr \<Rightarrow> int option"
  str_int :: "int \<Rightarrow> pystr"

text \<open>
  What lies around a call of \<open>make_page\<close> and changes while a generator runs: the state
  of the \<open>random\<close> module (seeded in gen-v2-pages.py, line 17), the examples collected
  so far and the keys seen.
\<close>

record ambient =
  random_state :: nat
  collected :: "json list"
  seen_prompts :: "pystr set"

section \<open>gen-v2-pages.py: make_page\<close>

text \<open>
  The business of a page: its string fields, and its features, each an icon, a title and
  a description. A field that is not there is a \<open>KeyError\<close>.
\<close>

record biz_v2 =
  fields_v2 :: strdict
  features_v2 :: "(pystr \<times> pystr \<times> pystr) list option"

text \<open>Lines 247 to 251: \<open>plans\<close>.\<close>

definition plans_v2 :: "(pystr \<times> pystr \<times> pystr \<times> pystr \<times> pystr list) list" where
  \<open>plans_v2 =
     [(pstr ''Starter'', pstr ''$0'', pstr ''/mo'', pstr ''For individuals & small teams'', [pstr ''Up to 3 users'', pstr ''Core features'', pstr ''Community support'',
      pstr ''1GB storage'']),
      (pstr ''Pro'', pstr ''$19'', pstr ''/user/mo'', pstr ''For growing teams'', [pstr ''Unlimited users'', pstr ''Advanced features'', pstr ''Priority support'',
      pstr ''100GB storage'', pstr ''API access'']),
      (pstr ''Enterprise'', pstr ''Custom'', [], pstr ''For large organizations'', [pstr ''Everything in Pro'', pstr ''SSO & SAML'', pstr ''Dedicated support'',
      pstr ''Custom SLA'', pstr ''Data residency''])]\<close>

text \<open>Lines 254 to 266: the body of the loop over \<open>enumerate(plans)\<close>.\<close>

definition price_card_v2 ::
  "nat \<Rightarrow> pystr \<times> pystr \<times> pystr \<times> pystr \<times> pystr list \<Rightarrow> py_error + pystr" where
  \<open>price_card_v2 i plan =
     (case plan of (name, price, period, desc, feats) \<Rightarrow>
        py_bind (if i = 1 then Inr (pstr '' featured'') else Inr []) (\<lambda>featured.
        py_bind (if i = 1 then (fstr
        [Inr [10], Inr (pstr ''        <div class="price-badge">Most Popular</div>'')]) else Inr []) (\<lambda>badge.
        py_bind (join_map [] (\<lambda>feat. (fstr
        [Inr (pstr ''<li>''), Inr feat, Inr (pstr ''</li>'')])) feats) (\<lambda>feat_items.
        py_bind (if i = 1 then Inr (pstr ''btn-primary'') else Inr (pstr ''btn-ghost'')) (\<lambda>btn_class.
        py_bind (if i = 1 then (fstr
        [Inr (pstr ''Start Free Trial ''), Inr [8594]]) else (if i = 0 then Inr (pstr ''Get Started'') else Inr (pstr ''Contact Sales''))) (\<lambda>btn_text.
        (fstr
         [Inr [10], Inr (pstr ''      <div class="price-card''), Inr featured, Inr (pstr ''">''),
          Inr badge, Inr [10], Inr (pstr ''        <div class="price-name">''), Inr name,
          Inr (pstr ''</div>''), Inr [10], Inr (pstr ''        <div class="price-amount">''),
          Inr price, Inr (pstr ''<span>''), Inr period, Inr (pstr ''</span></div>''), Inr [10],
          Inr (pstr ''        <div class="price-desc">''), Inr desc, Inr (pstr ''</div>''), Inr [10],
          Inr (pstr ''        <ul class="price-features">''), Inr feat_items, Inr (pstr ''</ul>''),
          Inr [10], Inr (pstr ''        <button class="btn ''), Inr btn_class, Inr (pstr ''">''),
          Inr btn_text, Inr (pstr ''</button>''), Inr [10], Inr (pstr ''      </div>'')])))))))\<close>

text \<open>Lines 245 to 272.\<close>

definition pricing_html_v2 :: "bool \<Rightarrow> py_error + pystr" where
  \<open>pricing_html_v2 has_pricing =
     (if has_pricing then
        py_bind (join_map [] (\<lambda>(i, plan). price_card_v2 i plan) (enumerate 0 plans_v2)) (\<lambda>cards_html.
        (fstr
         [Inr [10], Inr (pstr ''  <section class="pricing" id="pricing">''), Inr [10],
          Inr (pstr ''    <div class="section-header"><h2>Simple, transparent ''),
          Inr (pstr ''pricing</h2><p>Start free. Scale when you''), Inr [39],
          Inr (pstr ''re ready.</p></div>''), Inr [10], Inr (pstr ''    <div class="pricing-grid">''),
          Inr cards_html, Inr [10], Inr (pstr ''    </div>''), Inr [10], Inr (pstr ''  </section>'')]))
      else Inr [])\<close>

text \<open>Lines 275 to 279.\<close>

definition stats_data_v2 :: "(pystr \<times> pystr) list" where
  \<open>stats_data_v2 =
     [(pstr ''12,000+'', pstr ''Active Teams''), (pstr ''99.9%'', pstr ''Uptime SLA''),
      (pstr ''< 50ms'', pstr ''Avg Response''), (pstr ''150+'', pstr ''Countries'')]\<close>

definition stats_html_v2 :: "bool \<Rightarrow> py_error + pystr" where
  \<open>stats_html_v2 has_stats =
     (if has_stats then
        py_bind (join_map [] (\<lambda>s. (fstr
           [Inr (pstr ''<div class="stat"><div class="stat-number" data-target="''), Inr (fst s),
            Inr (pstr ''">''), Inr (fst s), Inr (pstr ''</div><div class="stat-label">''), Inr (snd s),
            Inr (pstr ''</div></div>'')])) stats_data_v2) (\<lambda>items.
        (fstr
         [Inr [10], Inr (pstr ''  <section class="stats">''), Inr items, Inr (pstr ''</section>'')]))
      else Inr [])\<close>

text \<open>Lines 282 to 296.\<close>

definition features_html_v2 :: "biz_v2 \<Rightarrow> py_error + pystr" where
  \<open>features_html_v2 b =
     (case features_v2 b of
        None \<Rightarrow> Inl KeyError
      | Some features \<Rightarrow>
          py_bind (join_map [] (\<lambda>(icon, title, desc). (fstr
             [Inr [10], Inr (pstr ''      <div class="feature-card fade-in">''), Inr [10],
              Inr (pstr ''        <div class="feature-icon">''), Inr icon, Inr (pstr ''</div>''),
              Inr [10], Inr (pstr ''        <h3>''), Inr title, Inr (pstr ''</h3>''), Inr [10],
              Inr (pstr ''        <p>''), Inr desc, Inr (pstr ''</p>''), Inr [10],
              Inr (pstr ''      </div>'')])) features) (\<lambda>feat_cards.
          (fstr
           [Inr [10], Inr (pstr ''  <section class="features" id="features">''), Inr [10],
            Inr (pstr ''    <div class="section-header"><h2>Everything you ''),
            Inr (pstr ''need</h2><p>Powerful features that grow with your team</p></div>''), Inr [10],
            Inr (pstr ''    <div class="features-grid">''), Inr feat_cards, Inr [10],
            Inr (pstr ''    </div>''), Inr [10], Inr (pstr ''  </section>'')])))\<close>

text \<open>Lines 299 to 318. The first and the third quote name the business.\<close>

definition testimonials_html_v2 :: "biz_v2 \<Rightarrow> bool \<Rightarrow> py_error + pystr" where
  \<open>testimonials_html_v2 b has_testimonials =
     (if has_testimonials then
        py_bind (fstr
           [py_get (fields_v2 b) ''name'',
            Inr (pstr '' transformed how our team works. We shipped 3x faster in the ''),
            Inr (pstr ''first month.'')]) (\<lambda>quote1.
        py_bind (fstr
           [Inr (pstr ''We evaluated 12 tools before choosing ''), py_get (fields_v2 b) ''name'',
            Inr (pstr ''. No regrets.'')]) (\<lambda>quote3.
        py_bind (join_map []
                   (\<lambda>(quote, name, role). (fstr
                      [Inr [10], Inr (pstr ''      <div class="testimonial-card">''), Inr [10],
                       Inr (pstr ''        <p>"''), Inr quote, Inr (pstr ''"</p>''), Inr [10],
                       Inr (pstr ''        <div class="testimonial-author"><strong>''), Inr name,
                       Inr (pstr ''</strong><span>''), Inr role, Inr (pstr ''</span></div>''), Inr [10],
                       Inr (pstr ''      </div>'')]))
                   [(quote1, pstr ''Sarah Chen'', pstr ''CTO at Meridian''),
                    ((pstr ''The best tool we'' @ [39] @ pstr ''ve adopted this year. Period.''), pstr ''Marcus Reeves'', pstr ''VP Engineering at Scale''),
                    (quote3, pstr ''Priya Patel'', pstr ''Founder at Lumina'')]) (\<lambda>cards.
        (fstr
         [Inr [10], Inr (pstr ''  <section class="testimonials">''), Inr [10],
          Inr (pstr ''    <div class="section-header"><h2>Loved by teams ''),
          Inr (pstr ''everywhere</h2></div>''), Inr [10],
          Inr (pstr ''    <div class="testimonials-grid">''), Inr cards, Inr [10],
          Inr (pstr ''    </div>''), Inr [10], Inr (pstr ''  </section>'')]))))
      else Inr [])\<close>

text \<open>Lines 321 to 341. The first answer names the business.\<close>

definition faq_html_v2 :: "biz_v2 \<Rightarrow> bool \<Rightarrow> py_error + pystr" where
  \<open>faq_html_v2 b has_faq =
     (if has_faq then
        py_bind (fstr
           [Inr (pstr ''Yes! ''), py_get (fields_v2 b) ''name'',
            Inr (pstr '' offers a generous free tier for individuals and small teams. ''),
            Inr (pstr ''No credit card required.'')]) (\<lambda>answer1.
        py_bind (join_map []
                   (\<lambda>(i, (q, a)). (fstr
                      [Inr [10], Inr (pstr ''      <div class="faq-item" onclick="this.classList.toggle(''),
                       Inr [39], Inr (pstr ''open''), Inr [39], Inr (pstr '')">''), Inr [10],
                       Inr (pstr ''        <div class="faq-question"><span>''), Inr q,
                       Inr (pstr ''</span><span class="faq-toggle">+</span></div>''), Inr [10],
                       Inr (pstr ''        <div class="faq-answer"><p>''), Inr a, Inr (pstr ''</p></div>''),
                       Inr [10], Inr (pstr ''      </div>'')]))
                   (enumerate 0
                     [(pstr ''Is there a free plan?'', answer1),
                      (pstr ''Can I cancel anytime?'', (pstr ''Absolutely. No contracts, no cancellation fees. You can '' @
                       pstr ''downgrade or cancel at any time.'')),
                      (pstr ''Is my data secure?'', (pstr ''We use bank-grade encryption, are SOC 2 Type II certified, and '' @
                       pstr ''offer data residency controls.'')),
                      (pstr ''Do you offer discounts for startups?'', (pstr ''Yes! We offer 50% off for the first year for qualifying '' @
                       pstr ''startups. Contact us to learn more.''))])) (\<lambda>items.
        (fstr
         [Inr [10], Inr (pstr ''  <section class="faq">''), Inr [10],
          Inr (pstr ''    <div class="section-header"><h2>Frequently asked ''),
          Inr (pstr ''questions</h2></div>''), Inr [10], Inr (pstr ''    <div class="faq-list">''),
          Inr items, Inr [10], Inr (pstr ''    </div>''), Inr [10], Inr (pstr ''  </section>'')])))
      else Inr [])\<close>

text \<open>
  Lines 344 to 382: \<open>hero_content\<close>, \<open>hero_css_extra\<close>, \<open>hero_h1_max\<close> and
  \<open>hero_p_max\<close>.
\<close>

definition hero_v2 :: "biz_v2 \<Rightarrow> pystr \<Rightarrow> py_error + pystr \<times> pystr \<times> pystr \<times> pystr" where
  \<open>hero_v2 b hero_style =
     (if hero_style = pstr ''centered'' then
        py_bind (fstr
           [Inr [10], Inr (pstr ''    <div class="hero-badge">''), Inr [10024],
            Inr (pstr '' New: AI-powered features</div>''), Inr [10], Inr (pstr ''    <h1>''),
            py_bind (py_get (fields_v2 b) ''tagline'') (\<lambda>t. py_first (py_split 32 t)),
            Inr (pstr '' <span>''),
            py_bind (py_get (fields_v2 b) ''tagline'') (\<lambda>t. Inr (py_join (pstr '' '') (drop 1 (py_split 32 t)))),
            Inr (pstr ''</span></h1>''), Inr [10], Inr (pstr ''    <p>''),
            py_get (fields_v2 b) ''desc'', Inr (pstr ''</p>''), Inr [10],
            Inr (pstr ''    <div class="hero-cta">''), Inr [10],
            Inr (pstr ''      <button class="btn btn-primary">Get Started Free ''), Inr [8594],
            Inr (pstr ''</button>''), Inr [10], Inr (pstr ''      <button class="btn btn-ghost">''),
            Inr [9654], Inr (pstr '' Watch Demo</button>''), Inr [10], Inr (pstr ''    </div>'')]) (\<lambda>hero_content.
        Inr (hero_content,
             pstr ''text-align: center;'',
             pstr ''max-width: 700px; margin: 0 auto 20px;'',
             pstr ''max-width: 520px; margin: 0 auto 40px;''))
      else if hero_style = pstr ''left-aligned'' then
        py_bind (fstr
           [Inr [10], Inr (pstr ''    <div class="hero-badge">''), Inr [10024],
            Inr (pstr '' Now in public beta</div>''), Inr [10], Inr (pstr ''    <h1>''),
            py_get (fields_v2 b) ''tagline'', Inr (pstr ''</h1>''), Inr [10], Inr (pstr ''    <p>''),
            py_get (fields_v2 b) ''desc'', Inr (pstr ''</p>''), Inr [10],
            Inr (pstr ''    <div class="hero-cta">''), Inr [10],
            Inr (pstr ''      <button class="btn btn-primary">Start Free Trial ''), Inr [8594],
            Inr (pstr ''</button>''), Inr [10],
            Inr (pstr ''      <button class="btn btn-ghost">Learn More</button>''), Inr [10],
            Inr (pstr ''    </div>'')]) (\<lambda>hero_content.
        Inr (hero_content,
             [],
             pstr ''max-width: 600px; margin-bottom: 20px;'',
             pstr ''max-width: 480px; margin-bottom: 40px;''))
      else
        py_bind (fstr
           [Inr [10], Inr (pstr ''    <div class="hero-text">''), Inr [10],
            Inr (pstr ''      <div class="hero-badge">''), Inr [10024],
            Inr (pstr '' Trusted by 10,000+ teams</div>''), Inr [10], Inr (pstr ''      <h1>''),
            py_get (fields_v2 b) ''tagline'', Inr (pstr ''</h1>''), Inr [10], Inr (pstr ''      <p>''),
            py_get (fields_v2 b) ''desc'', Inr (pstr ''</p>''), Inr [10],
            Inr (pstr ''      <div class="hero-cta">''), Inr [10],
            Inr (pstr ''        <button class="btn btn-primary">Get Started ''), Inr [8594],
            Inr (pstr ''</button>''), Inr [10],
            Inr (pstr ''        <button class="btn btn-ghost">See Pricing</button>''), Inr [10],
            Inr (pstr ''      </div>''), Inr [10], Inr (pstr ''    </div>''), Inr [10],
            Inr (pstr ''    <div class="hero-visual"></div>'')]) (\<lambda>hero_content.
        Inr (hero_content,
             (pstr ''display: grid; grid-template-columns: 1fr 1fr; gap: 60px; '' @
       pstr ''align-items: center;''),
             pstr ''margin-bottom: 20px;'',
             pstr ''margin-bottom: 40px;'')))\<close>

text \<open>Lines 385 to 390.\<close>

definition card_bg_v2 :: "strdict \<Rightarrow> bool \<Rightarrow> pystr \<Rightarrow> py_error + pystr" where
  \<open>card_bg_v2 p is_dark card_style =
     (if card_style = pstr ''glass'' then
        (fstr
         [Inr (pstr ''background: rgba(''),
          (if is_dark then Inr (pstr ''255,255,255'') else Inr (pstr ''0,0,0'')), Inr (pstr '',''),
          (if is_dark then Inr (pstr ''0.03'') else Inr (pstr ''0.02'')),
          Inr (pstr ''); backdrop-filter: blur(20px); -webkit-backdrop-filter: ''),
          Inr (pstr ''blur(20px);'')])
      else if card_style = pstr ''bordered'' then
        (fstr
         [Inr (pstr ''background: transparent; border: 1.5px solid ''), py_get p ''border_hover'',
          Inr (pstr '';'')])
      else
        (fstr
         [Inr (pstr ''background: ''), py_get p ''surface'', Inr (pstr '';'')]))\<close>

text \<open>Lines 393 to 414.\<close>

definition testimonial_css_v2 :: "bool \<Rightarrow> pystr" where
  \<open>testimonial_css_v2 has_testimonials =
     (if has_testimonials then
        ([10] @ pstr ''  .testimonials { max-width: 1200px; margin: 0 auto; padding: '' @
         pstr ''80px 24px; }'' @ [10] @
         pstr ''  .testimonials-grid { display: grid; grid-template-columns: '' @
         pstr ''repeat(auto-fill, minmax(320px, 1fr)); gap: 20px; }'' @ [10] @
         pstr ''  .testimonial-card { padding: 28px; background: '' @
         pstr ''var(--surface); border: 1px solid var(--border); border-radius: '' @
         pstr ''var(--radius); }'' @ [10] @
         pstr ''  .testimonial-card p { font-size: 15px; font-style: italic; '' @
         pstr ''color: var(--text-secondary); margin-bottom: 16px; line-height: '' @
         pstr ''1.7; }'' @ [10] @ pstr ''  .testimonial-author { font-size: 14px; }'' @ [10] @
         pstr ''  .testimonial-author strong { color: var(--text); display: '' @ pstr ''block; }'' @
         [10] @ pstr ''  .testimonial-author span { color: var(--muted); }'')
      else [])\<close>

definition faq_css_v2 :: "bool \<Rightarrow> pystr" where
  \<open>faq_css_v2 has_faq =
     (if has_faq then
        ([10] @ pstr ''  .faq { max-width: 700px; margin: 0 auto; padding: 80px 24px; }'' @ [10] @
         pstr ''  .faq-list { display: flex; flex-direction: column; gap: 8px; }'' @ [10] @
         pstr ''  .faq-item { border: 1px solid var(--border); border-radius: '' @
         pstr ''var(--radius); overflow: hidden; cursor: pointer; transition: '' @
         pstr ''border-color 0.2s; }'' @ [10] @
         pstr ''  .faq-item:hover { border-color: var(--border-hover); }'' @ [10] @
         pstr ''  .faq-question { padding: 16px 20px; display: flex; '' @
         pstr ''justify-content: space-between; align-items: center; '' @
         pstr ''font-weight: 600; font-size: 15px; }'' @ [10] @
         pstr ''  .faq-toggle { font-size: 20px; color: var(--muted); '' @
         pstr ''transition: transform 0.2s; }'' @ [10] @
         pstr ''  .faq-answer { max-height: 0; overflow: hidden; transition: '' @
         pstr ''max-height 0.3s ease, padding 0.3s ease; }'' @ [10] @
         pstr ''  .faq-answer p { padding: 0 20px; font-size: 14px; color: '' @
         pstr ''var(--muted); line-height: 1.7; }'' @ [10] @
         pstr ''  .faq-item.open .faq-answer { max-height: 200px; }'' @ [10] @
         pstr ''  .faq-item.open .faq-answer p { padding: 0 20px 16px; }'' @ [10] @
         pstr ''  .faq-item.open .faq-toggle { transform: rotate(45deg); }'')
      else [])\<close>

text \<open>Lines 417 to 421.\<close>

definition hero_visual_css_v2 :: "strdict \<Rightarrow> pystr \<Rightarrow> py_error + pystr" where
  \<open>hero_visual_css_v2 p hero_style =
     (if hero_style = pstr ''split'' then
        (fstr
         [Inr [10], Inr (pstr ''  .hero-visual { aspect-ratio: 4/3; background: ''),
          Inr (pstr ''linear-gradient(135deg, ''), py_get p ''surface'', Inr (pstr '', ''),
          py_get p ''surface_hover'', Inr (pstr '')''),
          Inr (pstr ''; border-radius: var(--radius-lg); border: 1px solid ''),
          Inr (pstr ''var(--border); }''), Inr [10],
          Inr (pstr ''  @media (max-width: 768px) { .hero { grid-template-columns: ''),
          Inr (pstr ''1fr !important; } .hero-visual { display: none; } }'')])
      else Inr [])\<close>

text \<open>Lines 424 to 565: the page, from the values computed before.\<close>

definition html_v2 ::
  "pylib \<Rightarrow> biz_v2 \<Rightarrow> strdict \<Rightarrow> strdict \<Rightarrow> bool \<Rightarrow> bool \<Rightarrow> pystr \<Rightarrow>
     pystr \<Rightarrow> pystr \<Rightarrow> pystr \<Rightarrow> pystr \<Rightarrow> pystr \<Rightarrow> pystr \<Rightarrow> pystr \<Rightarrow> pystr \<Rightarrow>
     pystr \<Rightarrow> pystr \<Rightarrow> pystr \<Rightarrow> pystr \<Rightarrow> pystr \<Rightarrow> py_error + pystr" where
  \<open>html_v2 lib b f p is_dark has_pricing hero_style
       pricing_html stats_html features_html testimonials_html faq_html
       hero_content hero_css_extra hero_h1_max hero_p_max
       card_bg testimonial_css faq_css hero_visual_css =
     (fstr
      [Inr (pstr ''<!DOCTYPE html>''), Inr [10], Inr (pstr ''<html lang="en">''), Inr [10],
       Inr (pstr ''<head>''), Inr [10], Inr (pstr ''<meta charset="UTF-8">''), Inr [10],
       Inr (pstr ''<meta name="viewport" content="width=device-width, ''),
       Inr (pstr ''initial-scale=1.0">''), Inr [10], Inr (pstr ''<title>''),
       py_get (fields_v2 b) ''name'', Inr (pstr '' ''), Inr [8212], Inr (pstr '' ''),
       py_get (fields_v2 b) ''type'', Inr (pstr ''</title>''), Inr [10],
       Inr (pstr ''<link href="https://fonts.googleapis.com/css2?family=''), py_get f ''import'',
       Inr (pstr ''&display=swap" rel="stylesheet">''), Inr [10], Inr (pstr ''<style>''), Inr [10],
       Inr (pstr ''  :root {''), Inr [10], Inr (pstr ''    --bg: ''), py_get p ''bg'',
       Inr (pstr ''; --surface: ''), py_get p ''surface'', Inr (pstr ''; --surface-hover: ''),
       py_get p ''surface_hover'', Inr (pstr '';''), Inr [10], Inr (pstr ''    --text: ''),
       py_get p ''text'', Inr (pstr ''; --muted: ''), py_get p ''muted'',
       Inr (pstr ''; --text-secondary: ''), py_get p ''secondary'', Inr (pstr '';''), Inr [10],
       Inr (pstr ''    --primary: ''), py_get p ''primary'', Inr (pstr ''; --primary-hover: ''),
       py_get p ''primary_hover'', Inr (pstr '';''), Inr [10],
       Inr (pstr ''    --primary-subtle: ''), py_get p ''primary_subtle'',
       Inr (pstr ''; --primary-glow: ''), py_get p ''primary_glow'', Inr (pstr '';''), Inr [10],
       Inr (pstr ''    --border: ''), py_get p ''border'', Inr (pstr ''; --border-hover: ''),
       py_get p ''border_hover'', Inr (pstr '';''), Inr [10], Inr (pstr ''    --font-display: ''),
       py_get f ''display_stack'', Inr (pstr ''; --font-body: ''), py_get f ''body_stack'',
       Inr (pstr '';''), Inr [10], Inr (pstr ''    --radius: 12px; --radius-lg: 16px;''), Inr [10],
       Inr (pstr ''  }''), Inr [10],
       Inr (pstr ''  * { margin: 0; padding: 0; box-sizing: border-box; }''), Inr [10],
       Inr (pstr ''  body { font-family: var(--font-body); background: var(--bg); ''),
       Inr (pstr ''color: var(--text); line-height: 1.6; overflow-x: hidden; }''), Inr [10],
       Inr (pstr ''  a { text-decoration: none; color: inherit; }''), Inr [10, 10],
       Inr (pstr ''  /* Navigation */''), Inr [10],
       Inr (pstr ''  nav { position: fixed; top: 0; width: 100%; z-index: 100; ''),
       Inr (pstr ''padding: 16px 24px; background: ''),
       (if is_dark then Inr (pstr ''rgba(10,10,15,0.8)'') else Inr (pstr ''rgba(255,255,255,0.85)'')),
       Inr (pstr ''; backdrop-filter: blur(20px); -webkit-backdrop-filter: ''),
       Inr (pstr ''blur(20px); border-bottom: 1px solid var(--border); }''), Inr [10],
       Inr (pstr ''  .nav-inner { max-width: 1200px; margin: 0 auto; display: ''),
       Inr (pstr ''flex; align-items: center; justify-content: space-between; }''), Inr [10],
       Inr (pstr ''  .logo { font-family: var(--font-display); font-size: 22px; ''),
       Inr (pstr ''font-weight: 700; ''),
       (if is_dark then (fstr
      [Inr (pstr ''background: linear-gradient(135deg, var(--primary), ''),
       Inr (pstr ''var(--primary-hover)); -webkit-background-clip: text; ''),
       Inr (pstr ''-webkit-text-fill-color: transparent;'')]) else Inr (pstr ''color: var(--text);'')),
       Inr (pstr '' }''), Inr [10],
       Inr (pstr ''  .nav-links { display: flex; gap: 32px; align-items: center; }''), Inr [10],
       Inr (pstr ''  .nav-links a { font-size: 14px; color: var(--muted); ''),
       Inr (pstr ''transition: color 0.2s; }''), Inr [10],
       Inr (pstr ''  .nav-links a:hover { color: var(--text); }''), Inr [10],
       Inr (pstr ''  .btn { padding: 10px 24px; border-radius: 8px; font-size: ''),
       Inr (pstr ''14px; font-weight: 600; cursor: pointer; transition: all 0.2s; ''),
       Inr (pstr ''border: none; font-family: var(--font-body); }''), Inr [10],
       Inr (pstr ''  .btn-primary { background: var(--primary); color: white; }''), Inr [10],
       Inr (pstr ''  .btn-primary:hover { background: var(--primary-hover); ''),
       Inr (pstr ''transform: translateY(-1px); box-shadow: 0 0 20px ''),
       Inr (pstr ''var(--primary-glow); }''), Inr [10],
       Inr (pstr ''  .btn-ghost { background: transparent; color: var(--text); ''),
       Inr (pstr ''border: 1px solid var(--border); }''), Inr [10],
       Inr (pstr ''  .btn-ghost:hover { border-color: var(--border-hover); ''),
       Inr (pstr ''background: var(--surface); }''), Inr [10, 10], Inr (pstr ''  /* Hero */''),
       Inr [10], Inr (pstr ''  .hero { padding: 160px 24px 80px; max-width: 1200px; margin: ''),
       Inr (pstr ''0 auto; ''), Inr hero_css_extra, Inr (pstr '' position: relative; }''),
       Inr [10], Inr (pstr ''  .hero::before { content: ''), Inr [39, 39],
       Inr (pstr ''; position: absolute; top: 0; left: 50%; transform: ''),
       Inr (pstr ''translateX(-50%); width: 600px; height: 600px; background: ''),
       Inr (pstr ''radial-gradient(circle, var(--primary-subtle), transparent ''),
       Inr (pstr ''70%); pointer-events: none; }''), Inr [10],
       Inr (pstr ''  .hero-badge { display: inline-flex; align-items: center; gap: ''),
       Inr (pstr ''8px; padding: 6px 16px; background: var(--primary-subtle); ''),
       Inr (pstr ''border: 1px solid ''),
       (if is_dark then Inr (pstr ''rgba(255,255,255,0.08)'') else Inr (pstr ''rgba(0,0,0,0.06)'')),
       Inr (pstr ''; border-radius: 100px; font-size: 13px; color: ''),
       Inr (pstr ''var(--primary-hover); margin-bottom: 24px; }''), Inr [10],
       Inr (pstr ''  .hero h1 { font-family: var(--font-display); font-size: ''),
       Inr (pstr ''clamp(36px, 6vw, 64px); font-weight: 700; line-height: 1.1; ''),
       Inr (pstr ''letter-spacing: -0.02em; ''), Inr hero_h1_max, Inr (pstr '' }''), Inr [10],
       Inr (pstr ''  .hero h1 span { ''),
       (if is_dark then (fstr
      [Inr (pstr ''background: linear-gradient(135deg, var(--primary), ''),
       Inr (pstr ''var(--primary-hover)); -webkit-background-clip: text; ''),
       Inr (pstr ''-webkit-text-fill-color: transparent;'')]) else Inr (pstr ''color: var(--primary);'')),
       Inr (pstr '' }''), Inr [10],
       Inr (pstr ''  .hero p { font-size: 18px; color: var(--muted); ''), Inr hero_p_max,
       Inr (pstr '' }''), Inr [10], Inr (pstr ''  .hero-cta { display: flex; gap: 12px; ''),
       (if hero_style = pstr ''centered'' then Inr (pstr ''justify-content: center;'') else Inr []),
       Inr (pstr '' flex-wrap: wrap; }''), Inr [10], Inr (pstr ''  ''), Inr hero_visual_css,
       Inr [10, 10], Inr (pstr ''  /* Section Header */''), Inr [10],
       Inr (pstr ''  .section-header { text-align: center; margin-bottom: 60px; }''), Inr [10],
       Inr (pstr ''  .section-header h2 { font-family: var(--font-display); ''),
       Inr (pstr ''font-size: 36px; font-weight: 700; margin-bottom: 12px; }''), Inr [10],
       Inr (pstr ''  .section-header p { color: var(--muted); font-size: 16px; }''), Inr [10, 10],
       Inr (pstr ''  /* Stats */''), Inr [10],
       Inr (pstr ''  .stats { display: flex; justify-content: center; gap: 48px; ''),
       Inr (pstr ''padding: 60px 24px; flex-wrap: wrap; }''), Inr [10],
       Inr (pstr ''  .stat { text-align: center; }''), Inr [10],
       Inr (pstr ''  .stat-number { font-family: var(--font-display); font-size: ''),
       Inr (pstr ''42px; font-weight: 700; color: var(--primary-hover); }''), Inr [10],
       Inr (pstr ''  .stat-label { font-size: 14px; color: var(--muted); ''),
       Inr (pstr ''margin-top: 4px; }''), Inr [10, 10], Inr (pstr ''  /* Features */''), Inr [10],
       Inr (pstr ''  .features { max-width: 1200px; margin: 0 auto; padding: 80px ''),
       Inr (pstr ''24px; }''), Inr [10],
       Inr (pstr ''  .features-grid { display: grid; grid-template-columns: ''),
       Inr (pstr ''repeat(auto-fill, minmax(340px, 1fr)); gap: 20px; }''), Inr [10],
       Inr (pstr ''  .feature-card { padding: 32px; ''), Inr card_bg,
       Inr (pstr '' border: 1px solid var(--border); border-radius: ''),
       Inr (pstr ''var(--radius-lg); transition: all 0.3s; }''), Inr [10],
       Inr (pstr ''  .feature-card:hover { border-color: var(--border-hover); ''),
       Inr (pstr ''transform: translateY(-4px); box-shadow: 0 12px 24px ''),
       (if is_dark then Inr (pstr ''rgba(0,0,0,0.3)'') else Inr (pstr ''rgba(0,0,0,0.06)'')),
       Inr (pstr ''; }''), Inr [10],
       Inr (pstr ''  .feature-icon { width: 48px; height: 48px; border-radius: ''),
       Inr (pstr ''12px; background: var(--primary-subtle); display: flex; ''),
       Inr (pstr ''align-items: center; justify-content: center; font-size: 22px; ''),
       Inr (pstr ''margin-bottom: 16px; }''), Inr [10],
       Inr (pstr ''  .feature-card h3 { font-family: var(--font-display); ''),
       Inr (pstr ''font-size: 18px; font-weight: 600; margin-bottom: 8px; }''), Inr [10],
       Inr (pstr ''  .feature-card p { font-size: 14px; color: var(--muted); ''),
       Inr (pstr ''line-height: 1.6; }''), Inr [10, 10], Inr (pstr ''  /* Pricing */''), Inr [10],
       Inr (pstr ''  .pricing { max-width: 1000px; margin: 0 auto; padding: 80px ''),
       Inr (pstr ''24px; }''), Inr [10],
       Inr (pstr ''  .pricing-grid { display: grid; grid-template-columns: ''),
       Inr (pstr ''repeat(auto-fill, minmax(280px, 1fr)); gap: 20px; }''), Inr [10],
       Inr (pstr ''  .price-card { padding: 32px; background: var(--surface); ''),
       Inr (pstr ''border: 1px solid var(--border); border-radius: ''),
       Inr (pstr ''var(--radius-lg); position: relative; }''), Inr [10],
       Inr (pstr ''  .price-card.featured { border-color: var(--primary); ''),
       (if is_dark then (fstr
      [Inr (pstr ''background: linear-gradient(180deg, var(--primary-subtle), ''),
       Inr (pstr ''var(--surface));'')]) else Inr []),
       Inr (pstr '' }''), Inr [10],
       Inr (pstr ''  .price-badge { position: absolute; top: -12px; left: 50%; ''),
       Inr (pstr ''transform: translateX(-50%); background: var(--primary); color: ''),
       Inr (pstr ''white; padding: 4px 16px; border-radius: 100px; font-size: ''),
       Inr (pstr ''12px; font-weight: 600; }''), Inr [10],
       Inr (pstr ''  .price-name { font-family: var(--font-display); font-size: ''),
       Inr (pstr ''20px; font-weight: 600; margin-bottom: 8px; }''), Inr [10],
       Inr (pstr ''  .price-amount { font-family: var(--font-display); font-size: ''),
       Inr (pstr ''48px; font-weight: 700; margin-bottom: 4px; }''), Inr [10],
       Inr (pstr ''  .price-amount span { font-size: 16px; color: var(--muted); ''),
       Inr (pstr ''font-weight: 400; }''), Inr [10],
       Inr (pstr ''  .price-desc { font-size: 14px; color: var(--muted); ''),
       Inr (pstr ''margin-bottom: 24px; }''), Inr [10],
       Inr (pstr ''  .price-features { list-style: none; margin-bottom: 32px; }''), Inr [10],
       Inr (pstr ''  .price-features li { padding: 8px 0; font-size: 14px; color: ''),
       Inr (pstr ''var(--text-secondary); display: flex; align-items: center; gap: ''),
       Inr (pstr ''8px; }''), Inr [10], Inr (pstr ''  .price-features li::before { content: ''),
       Inr [39, 10003, 39], Inr (pstr ''; color: var(--primary-hover); font-weight: 700; }''),
       Inr [10], Inr (pstr ''  .price-card .btn { width: 100%; text-align: center; display: ''),
       Inr (pstr ''block; }''), Inr [10], Inr (pstr ''  ''), Inr testimonial_css, Inr [10],
       Inr (pstr ''  ''), Inr faq_css, Inr [10, 10], Inr (pstr ''  /* CTA */''), Inr [10],
       Inr (pstr ''  .cta-section { max-width: 800px; margin: 0 auto; padding: ''),
       Inr (pstr ''80px 24px; text-align: center; }''), Inr [10],
       Inr (pstr ''  .cta-section h2 { font-family: var(--font-display); ''),
       Inr (pstr ''font-size: 40px; font-weight: 700; margin-bottom: 16px; }''), Inr [10],
       Inr (pstr ''  .cta-section p { color: var(--muted); font-size: 17px; ''),
       Inr (pstr ''margin-bottom: 32px; }''), Inr [10, 10], Inr (pstr ''  /* Footer */''),
       Inr [10], Inr (pstr ''  footer { max-width: 1200px; margin: 0 auto; padding: 32px ''),
       Inr (pstr ''24px; border-top: 1px solid var(--border); display: flex; ''),
       Inr (pstr ''justify-content: space-between; color: var(--muted); font-size: ''),
       Inr (pstr ''13px; flex-wrap: wrap; gap: 8px; }''), Inr [10, 10],
       Inr (pstr ''  /* Animations */''), Inr [10],
       Inr (pstr ''  .fade-in { opacity: 0; transform: translateY(20px); ''),
       Inr (pstr ''transition: opacity 0.6s ease, transform 0.6s ease; }''), Inr [10],
       Inr (pstr ''  .fade-in.visible { opacity: 1; transform: translateY(0); }''), Inr [10, 10],
       Inr (pstr ''  /* Mobile */''), Inr [10], Inr (pstr ''  @media (max-width: 768px) {''),
       Inr [10], Inr (pstr ''    .nav-links { display: none; }''), Inr [10],
       Inr (pstr ''    .hero { padding-top: 100px; }''), Inr [10],
       Inr (pstr ''    .hero h1 { font-size: 32px; }''), Inr [10],
       Inr (pstr ''    .stats { gap: 24px; }''), Inr [10],
       Inr (pstr ''    .stat-number { font-size: 32px; }''), Inr [10],
       Inr (pstr ''    .features-grid, .pricing-grid, .testimonials-grid { ''),
       Inr (pstr ''grid-template-columns: 1fr; }''), Inr [10],
       Inr (pstr ''    footer { flex-direction: column; }''), Inr [10], Inr (pstr ''  }''),
       Inr [10], Inr (pstr ''  @media (prefers-reduced-motion: reduce) { .fade-in { opacity: ''),
       Inr (pstr ''1; transform: none; transition: none; } }''), Inr [10], Inr (pstr ''</style>''),
       Inr [10], Inr (pstr ''</head>''), Inr [10], Inr (pstr ''<body>''), Inr [10],
       Inr (pstr ''  <nav><div class="nav-inner">''), Inr [10],
       Inr (pstr ''    <a href="#" class="logo">''), py_get (fields_v2 b) ''name'',
       Inr (pstr ''</a>''), Inr [10], Inr (pstr ''    <div class="nav-links">''), Inr [10],
       Inr (pstr ''      <a href="#features">Features</a>''),
       (if has_pricing then Inr (pstr ''<a href="#pricing">Pricing</a>'') else Inr []),
       Inr (pstr ''<a href="#">Docs</a>''), Inr [10],
       Inr (pstr ''      <button class="btn btn-ghost">Sign In</button>''), Inr [10],
       Inr (pstr ''      <button class="btn btn-primary">Get Started ''), Inr [8594],
       Inr (pstr ''</button>''), Inr [10], Inr (pstr ''    </div>''), Inr [10],
       Inr (pstr ''  </div></nav>''), Inr [10, 10], Inr (pstr ''  <section class="hero">''),
       Inr hero_content, Inr [10], Inr (pstr ''  </section>''), Inr [10], Inr (pstr ''  ''),
       Inr stats_html, Inr [10], Inr (pstr ''  ''), Inr features_html, Inr [10], Inr (pstr ''  ''),
       Inr testimonials_html, Inr [10], Inr (pstr ''  ''), Inr pricing_html, Inr [10],
       Inr (pstr ''  ''), Inr faq_html, Inr [10, 10],
       Inr (pstr ''  <section class="cta-section">''), Inr [10],
       Inr (pstr ''    <h2>Ready to get started?</h2>''), Inr [10],
       Inr (pstr ''    <p>Join thousands of teams already using ''), py_get (fields_v2 b) ''name'',
       Inr (pstr '' to ''),
       py_bind (py_get (fields_v2 b) ''desc'') (\<lambda>d.
          py_bind (py_first (py_split 46 d)) (\<lambda>sentence.
          py_bind (py_get (fields_v2 b) ''name'') (\<lambda>n.
            Inr (py_replace (lower lib n) (pstr ''their workflow'') (lower lib sentence))))),
       Inr (pstr ''.</p>''), Inr [10],
       Inr (pstr ''    <button class="btn btn-primary">Start Free Trial ''), Inr [8594],
       Inr (pstr ''</button>''), Inr [10], Inr (pstr ''  </section>''), Inr [10, 10],
       Inr (pstr ''  <footer><span>''), Inr [169], Inr (pstr '' 2026 ''),
       py_get (fields_v2 b) ''name'', Inr (pstr ''. All rights reserved.</span><span>Privacy ''),
       Inr [183], Inr (pstr '' Terms ''), Inr [183], Inr (pstr '' Status</span></footer>''),
       Inr [10, 10], Inr (pstr ''  <script>''), Inr [10], Inr (pstr ''    // Fade-in on scroll''),
       Inr [10], Inr (pstr ''    const faders = document.querySelectorAll(''), Inr [39],
       Inr (pstr ''.fade-in''), Inr [39], Inr (pstr '');''), Inr [10],
       Inr (pstr ''    const fadeObs = new IntersectionObserver(entries => {''), Inr [10],
       Inr (pstr ''      entries.forEach(e => { if (e.isIntersecting) { ''),
       Inr (pstr ''e.target.classList.add(''), Inr [39], Inr (pstr ''visible''), Inr [39],
       Inr (pstr ''); fadeObs.unobserve(e.target); } });''), Inr [10],
       Inr (pstr ''    }, { threshold: 0.1, rootMargin: ''), Inr [39],
       Inr (pstr ''0px 0px -50px 0px''), Inr [39], Inr (pstr '' });''), Inr [10],
       Inr (pstr ''    faders.forEach(f => fadeObs.observe(f));''), Inr [10],
       Inr (pstr ''  </script>''), Inr [10], Inr (pstr ''</body>''), Inr [10],
       Inr (pstr ''</html>'')])\<close>

text \<open>
  \<open>make_page\<close>, lines 236 to 566, statement by statement. The local \<open>theme\<close> of line 239
  is never used.
\<close>

definition page_v2 ::
  "pylib \<Rightarrow> biz_v2 \<Rightarrow> strdict \<Rightarrow> strdict \<Rightarrow> bool \<Rightarrow> bool \<Rightarrow> bool \<Rightarrow> bool \<Rightarrow> bool \<Rightarrow>
     pystr \<Rightarrow> pystr \<Rightarrow> py_error + pystr" where
  "page_v2 lib biz fonts palette is_dark has_pricing has_stats has_testimonials has_faq
       hero_style card_style =
     py_bind (pricing_html_v2 has_pricing) (\<lambda>pricing_html.
     py_bind (stats_html_v2 has_stats) (\<lambda>stats_html.
     py_bind (features_html_v2 biz) (\<lambda>features_html.
     py_bind (testimonials_html_v2 biz has_testimonials) (\<lambda>testimonials_html.
     py_bind (faq_html_v2 biz has_faq) (\<lambda>faq_html.
     py_bind (hero_v2 biz hero_style) (\<lambda>(hero_content, hero_css_extra, hero_h1_max, hero_p_max).
     py_bind (card_bg_v2 palette is_dark card_style) (\<lambda>card_bg.
     py_bind (hero_visual_css_v2 palette hero_style) (\<lambda>hero_visual_css.
       html_v2 lib biz fonts palette is_dark has_pricing hero_style
         pricing_html stats_html features_html testimonials_html faq_html
         hero_content hero_css_extra hero_h1_max hero_p_max
         card_bg (testimonial_css_v2 has_testimonials) (faq_css_v2 has_faq)
         hero_visual_css))))))))"
section \<open>v4-batch1-pages.py: make_page and its helpers\<close>

text \<open>\<open>google_font_url\<close>, lines 113 to 118.\<close>

definition google_font_url :: "pystr \<Rightarrow> pystr \<Rightarrow> py_error + pystr" where
  \<open>google_font_url f1 f2 =
     (let fam1 = py_replace (pstr '' '') (pstr ''+'') f1;
          fam2 = py_replace (pstr '' '') (pstr ''+'') f2
      in if fam1 = fam2 then
           (fstr
            [Inr (pstr ''https://fonts.googleapis.com/css2?family=''), Inr fam1,
             Inr (pstr '':wght@400;500;600;700&display=swap'')])
         else
           (fstr
            [Inr (pstr ''https://fonts.googleapis.com/css2?family=''), Inr fam1,
             Inr (pstr '':wght@500;600;700&family=''), Inr fam2,
             Inr (pstr '':wght@400;500&display=swap'')]))\<close>




text \<open>\<open>make_stats_html\<close>, lines 136 to 148. Line 140: \<open>target\<close>, the chain of \<open>replace\<close>.\<close>

definition stat_target_v4 :: "pystr \<Rightarrow> pystr" where
  \<open>stat_target_v4 val =
     py_replace (pstr ''B'') []
            (py_replace (pstr ''min'') []
            (py_replace (pstr ''ms'') []
            (py_replace (pstr ''$'') []
            (py_replace (pstr ''/5'') []
            (py_replace (pstr ''%'') []
            (py_replace (pstr ''+'') []
            (py_replace (pstr '','') []
            (val))))))))\<close>

text \<open>Lines 141 to 146: \<open>suffix\<close>.\<close>

definition stat_suffix_v4 :: "pystr \<Rightarrow> pystr" where
  \<open>stat_suffix_v4 val =
     (if py_in_str (pstr ''+'') val then pstr ''+''
      else if py_in_str (pstr ''%'') val then pstr ''%''
      else if py_in_str (pstr ''/5'') val then pstr ''/5''
      else if py_in_str (pstr ''$'') val then []
      else if py_in_str (pstr ''ms'') val then pstr ''ms''
      else [])\<close>

definition make_stats_html :: "(pystr \<times> pystr) list \<Rightarrow> py_error + pystr" where
  \<open>make_stats_html stats =
     join_map [10]
       (\<lambda>(val, label).
          py_bind (Inr (if py_in_str (pstr ''.'') val then pstr ''1'' else pstr ''0'')) (\<lambda>dec.
          py_bind (Inr (stat_target_v4 val)) (\<lambda>target.
          py_bind (Inr (stat_suffix_v4 val)) (\<lambda>suffix.
          (fstr
           [Inr (pstr ''<div class="stat"><div class="stat-val" data-target="''), Inr target,
            Inr (pstr ''" data-suffix="''), Inr suffix, Inr (pstr ''" data-decimal="''), Inr dec,
            Inr (pstr ''">0</div><div class="stat-label">''), Inr label, Inr (pstr ''</div></div>'')])))))
       stats\<close>











section \<open>Basic facts\<close>

lemma pstr_eq_iff [simp]: "pstr a = pstr b \<longleftrightarrow> a = b"
  unfolding pstr_def by (rule inj_map_eq_map) (simp add: inj_def)

lemma py_bind_Inr [simp]: "py_bind (Inr x) f = f x"
  by (simp add: py_bind_def)

lemma py_bind_Inl [simp]: "py_bind (Inl e) f = Inl e"
  by (simp add: py_bind_def)

lemma length_pstr [simp]: "length (pstr s) = length s"
  by (simp add: pstr_def)

lemma pstr_eq_Nil [simp]: "pstr s = [] \<longleftrightarrow> s = []" "[] = pstr s \<longleftrightarrow> s = []"
  by (auto simp: pstr_def)

lemmas validate_unfold =
  validate_def check_data_def check_messages_def check_roles_def line_chars_def
  dict_get_def dict_keys_def msg_def

section \<open>validate and train\<close>

text \<open>
  C4: validate should reject (return False and report an error for) a record that has a
  message without the "role" key. On the file whose one line is such a record, the
  comprehension of line 52 raises KeyError before the check of line 57 is reached, and
  validate returns nothing.
\<close>

theorem validate_missing_role_raises:
  "validate (\<lambda>line. Some record_missing_role) [pstr ''line 1''] = Inl KeyError"
  by (simp add: validate_unfold record_missing_role_def)

text \<open>When validate returns False, train returns with the world as it was: no call is made.\<close>

lemma train_rejected_makes_no_call:
  "validate loads (training_file w) = Inr (out, False) \<Longrightarrow> train loads r w = Inr w"
  by (simp add: train_def)

lemma train_raises_with_validate:
  "validate loads (training_file w) = Inl e \<Longrightarrow> train loads r w = Inl e"
  by (simp add: train_def)

text \<open>
  C5: validate should collect a message's missing "role" into the list of errors and
  report the list. On the training file whose one line is such a record, train is left
  by the KeyError of line 52: no list is reported (and no call is made).
\<close>

theorem train_missing_role_raises:
  "train (\<lambda>line. Some record_missing_role) r
     \<lparr>training_file = [pstr ''line 1''], job_file = jf, calls = cs\<rparr> = Inl KeyError"
  by (simp add: train_def validate_unfold record_missing_role_def)

subsection \<open>What validate accepts\<close>

















section \<open>The job identifier file\<close>







section \<open>watch\<close>

lemmas watch_loop_induct = watch_loop.raw_induct[rotated -1, consumes 1, case_names body]

lemma watch_loop_Some_terminal:
  "watch_loop answers jid k s = Some s' \<Longrightarrow> \<exists>n\<ge>k. terminal (job_status (answers n))"
proof (induct rule: watch_loop_induct)
  case (body loop answers jid k s s')
  show ?case
  proof (cases "terminal (job_status (answers k))")
    case True
    then show ?thesis by blast
  next
    case False
    with body(2) have "loop answers jid (k + 1) (emit (Sleep 30) (poll_job jid (answers k) s)) = Some s'"
      by (simp add: terminal_def split: if_splits)
    from body(1)[OF this] obtain n where "k + 1 \<le> n" "terminal (job_status (answers n))" by blast
    then show ?thesis by (intro exI[of _ n]) simp
  qed
qed

lemma watch_loop_terminates:
  "terminal (job_status (answers n)) \<Longrightarrow> k \<le> n \<Longrightarrow> \<exists>s'. watch_loop answers jid k s = Some s'"
proof (induction "n - k" arbitrary: k s)
  case 0
  then have "k = n" by simp
  with 0(2) show ?case
    by (subst watch_loop.simps) (auto simp: terminal_def)
next
  case (Suc d)
  show ?case
  proof (cases "terminal (job_status (answers k))")
    case True
    then show ?thesis by (subst watch_loop.simps) (auto simp: terminal_def)
  next
    case False
    from Suc have "d = n - (k + 1)" "k + 1 \<le> n" by simp_all
    from Suc(1)[OF this(1) Suc(3) this(2)]
    obtain s' where "watch_loop answers jid (k + 1) (emit (Sleep 30) (poll_job jid (answers k) s)) = Some s'"
      by blast
    with False show ?thesis by (subst watch_loop.simps) (simp add: terminal_def)
  qed
qed

lemma shown_ids_append: "shown_ids (a @ b) = shown_ids a @ shown_ids b"
  by (induction a rule: shown_ids.induct) simp_all

lemma shown_once_show_events: "shown_once s \<Longrightarrow> shown_once (show_events es s)"
proof (induction es arbitrary: s)
  case Nil then show ?case by simp
next
  case (Cons e es)
  obtain eid message where e: "e = (eid, message)" by (cases e)
  show ?case
  proof (cases "eid \<in> seen_events s")
    case True
    with Cons e show ?thesis by simp
  next
    case False
    let ?s = "s\<lparr>seen_events := insert eid (seen_events s), trace := trace s @ [ShowEvent eid message]\<rparr>"
    from Cons(2) False have "shown_once ?s"
      by (auto simp: shown_once_def shown_ids_append)
    from Cons(1)[OF this] False e show ?thesis by simp
  qed
qed

lemma shown_once_poll_job: "shown_once s \<Longrightarrow> shown_once (poll_job jid p s)"
  unfolding poll_job_def
  by (rule shown_once_show_events) (simp add: shown_once_def shown_ids_append)

lemma shown_once_emit:
  "shown_once s \<Longrightarrow> shown_ids [a] = [] \<Longrightarrow> shown_once (emit a s)"
  by (simp add: shown_once_def emit_def shown_ids_append)

lemma shown_once_watch_after:
  "shown_once s \<Longrightarrow> shown_once (watch_after answers jid n k s)"
  by (induction n arbitrary: k s) (simp_all add: shown_once_poll_job shown_once_emit)

lemma shown_once_watch_loop:
  "watch_loop answers jid k s = Some s' \<Longrightarrow> shown_once s \<Longrightarrow> shown_once s'"
proof (induct rule: watch_loop_induct)
  case (body loop answers jid k s s')
  have p: "shown_once (poll_job jid (answers k) s)"
    using body(3) by (rule shown_once_poll_job)
  consider (ok) "job_status (answers k) = pstr ''succeeded''"
    | (failed) "job_status (answers k) \<noteq> pstr ''succeeded''" "job_status (answers k) = pstr ''failed''"
    | (other) "job_status (answers k) \<noteq> pstr ''succeeded''" "job_status (answers k) \<noteq> pstr ''failed''"
    by blast
  then show ?case
  proof cases
    case ok
    with body(2) have "s' = emit ShowComplete (poll_job jid (answers k) s)" by simp
    with p show ?thesis by (simp add: shown_once_emit)
  next
    case failed
    with body(2) have "s' = emit ShowFailed (poll_job jid (answers k) s)" by simp
    with p show ?thesis by (simp add: shown_once_emit)
  next
    case other
    with body(2) have "loop answers jid (k + 1) (emit (Sleep 30) (poll_job jid (answers k) s)) = Some s'"
      by simp
    moreover have "shown_once (emit (Sleep 30) (poll_job jid (answers k) s))"
      using p by (simp add: shown_once_emit)
    ultimately show ?thesis by (rule body(1))
  qed
qed

lemma shown_once_start: "shown_once watch_start"
  by (simp add: shown_once_def watch_start_def)

lemma watch_loop_never_exits:
  "(\<forall>n. k \<le> n \<longrightarrow> \<not> terminal (job_status (answers n))) \<Longrightarrow> watch_loop answers jid k s = None"
proof (rule ccontr)
  assume a: "\<forall>n. k \<le> n \<longrightarrow> \<not> terminal (job_status (answers n))"
  assume "watch_loop answers jid k s \<noteq> None"
  then obtain s' where "watch_loop answers jid k s = Some s'" by blast
  from watch_loop_Some_terminal[OF this] a show False by blast
qed

lemma poll_job_trace:
  "\<exists>shown. trace (poll_job jid p s) = trace s @ [Retrieve jid, GetEvents jid] @ shown"
proof -
  have "\<exists>shown. trace (show_events es s) = trace s @ shown" for es s
  proof (induction es arbitrary: s)
    case Nil then show ?case by simp
  next
    case (Cons e es)
    obtain eid message where e: "e = (eid, message)" by (cases e)
    show ?case
    proof (cases "eid \<in> seen_events s")
      case True with Cons e show ?thesis by simp
    next
      case False
      let ?s = "s\<lparr>seen_events := insert eid (seen_events s), trace := trace s @ [ShowEvent eid message]\<rparr>"
      from Cons[of ?s] obtain shown where "trace (show_events es ?s) = trace ?s @ shown" by blast
      with False e show ?thesis by simp
    qed
  qed
  from this[of "rev (events p)" "s\<lparr>trace := trace s @ [Retrieve jid, GetEvents jid]\<rparr>"]
  show ?thesis by (simp add: poll_job_def)
qed

text \<open>
  C8: the polling loop of watch does not exit while the retrieved status is neither
  'succeeded' nor 'failed'. If no poll from the \<open>k\<close>-th on answers with such a status, the
  loop never returns. On any other status the loop sleeps 30 seconds and goes through the
  body again, which starts by retrieving the job; on 'succeeded' or 'failed' it returns at
  once. So it returns exactly when some poll answers 'succeeded' or 'failed'.
\<close>

theorem watch_exits_exactly_on_terminal:
  "((\<forall>n. k \<le> n \<longrightarrow> \<not> terminal (job_status (answers n))) \<longrightarrow>
      watch_loop answers jid k s = None) \<and>
   (\<not> terminal (job_status (answers k)) \<longrightarrow>
      watch_loop answers jid k s =
        watch_loop answers jid (k + 1) (emit (Sleep 30) (poll_job jid (answers k) s))) \<and>
   (terminal (job_status (answers k)) \<longrightarrow>
      watch_loop answers jid k s =
        Some (emit (if job_status (answers k) = pstr ''succeeded'' then ShowComplete else ShowFailed)
               (poll_job jid (answers k) s))) \<and>
   (\<exists>shown. trace (poll_job jid (answers k) s) = trace s @ [Retrieve jid, GetEvents jid] @ shown) \<and>
   ((\<exists>n. k \<le> n \<and> terminal (job_status (answers n))) \<longrightarrow>
      (\<exists>s'. watch_loop answers jid k s = Some s'))"
proof (intro conjI impI)
  assume "\<forall>n. k \<le> n \<longrightarrow> \<not> terminal (job_status (answers n))"
  then show "watch_loop answers jid k s = None" by (rule watch_loop_never_exits)
next
  assume "\<not> terminal (job_status (answers k))"
  then show "watch_loop answers jid k s =
        watch_loop answers jid (k + 1) (emit (Sleep 30) (poll_job jid (answers k) s))"
    by (subst watch_loop.simps) (simp add: terminal_def)
next
  assume "terminal (job_status (answers k))"
  then show "watch_loop answers jid k s =
        Some (emit (if job_status (answers k) = pstr ''succeeded'' then ShowComplete else ShowFailed)
               (poll_job jid (answers k) s))"
    by (subst watch_loop.simps) (auto simp: terminal_def)
next
  show "\<exists>shown. trace (poll_job jid (answers k) s) = trace s @ [Retrieve jid, GetEvents jid] @ shown"
    by (rule poll_job_trace)
next
  assume "\<exists>n. k \<le> n \<and> terminal (job_status (answers n))"
  then obtain n where "terminal (job_status (answers n))" "k \<le> n" by blast
  then show "\<exists>s'. watch_loop answers jid k s = Some s'" by (rule watch_loop_terminates)
qed

theorem watch_exits_exactly_on_terminal_witness:
  "(\<forall>n. \<not> terminal (job_status (answers_queued n))) \<and>
   watch_loop answers_queued (pstr ''job'') 0 watch_start = None \<and>
   \<not> terminal (job_status (answers_one_running 0)) \<and>
   terminal (job_status (answers_one_running 1)) \<and>
   watch_loop answers_one_running (pstr ''job'') 0 watch_start =
     Some \<lparr>seen_events = {pstr ''ev-1'', pstr ''ev-2''},
           trace = [Retrieve (pstr ''job''), GetEvents (pstr ''job''),
                    ShowEvent (pstr ''ev-1'') (pstr ''Created''), Sleep 30,
                    Retrieve (pstr ''job''), GetEvents (pstr ''job''),
                    ShowEvent (pstr ''ev-2'') (pstr ''Done''), ShowComplete]\<rparr>"
proof -
  have q: "\<forall>n. \<not> terminal (job_status (answers_queued n))"
    by (simp add: answers_queued_def terminal_def)
  have r0: "\<not> terminal (job_status (answers_one_running 0))"
    by (simp add: answers_one_running_def terminal_def)
  have r1: "terminal (job_status (answers_one_running 1))"
    by (simp add: answers_one_running_def terminal_def)
  note a = watch_exits_exactly_on_terminal[of 0 answers_queued "pstr ''job''" watch_start]
  note b = watch_exits_exactly_on_terminal[of 0 answers_one_running "pstr ''job''" watch_start]
  note c = watch_exits_exactly_on_terminal[of 1 answers_one_running "pstr ''job''"
      "emit (Sleep 30) (poll_job (pstr ''job'') (answers_one_running 0) watch_start)"]
  from a q have 1: "watch_loop answers_queued (pstr ''job'') 0 watch_start = None" by blast
  from b r0 have 2: "watch_loop answers_one_running (pstr ''job'') 0 watch_start =
     watch_loop answers_one_running (pstr ''job'') (0 + 1)
       (emit (Sleep 30) (poll_job (pstr ''job'') (answers_one_running 0) watch_start))" by blast
  from c r1 have 3: "watch_loop answers_one_running (pstr ''job'') 1
       (emit (Sleep 30) (poll_job (pstr ''job'') (answers_one_running 0) watch_start)) =
     Some (emit (if job_status (answers_one_running 1) = pstr ''succeeded'' then ShowComplete else ShowFailed)
               (poll_job (pstr ''job'') (answers_one_running 1)
                  (emit (Sleep 30) (poll_job (pstr ''job'') (answers_one_running 0) watch_start))))"
    by blast
  have 4: "emit (if job_status (answers_one_running 1) = pstr ''succeeded'' then ShowComplete else ShowFailed)
               (poll_job (pstr ''job'') (answers_one_running 1)
                  (emit (Sleep 30) (poll_job (pstr ''job'') (answers_one_running 0) watch_start))) =
     \<lparr>seen_events = {pstr ''ev-1'', pstr ''ev-2''},
           trace = [Retrieve (pstr ''job''), GetEvents (pstr ''job''),
                    ShowEvent (pstr ''ev-1'') (pstr ''Created''), Sleep 30,
                    Retrieve (pstr ''job''), GetEvents (pstr ''job''),
                    ShowEvent (pstr ''ev-2'') (pstr ''Done''), ShowComplete]\<rparr>"
    by (simp add: answers_one_running_def emit_def poll_job_def watch_start_def insert_commute)
  from q 1 r0 r1 2 3 4 show ?thesis by simp
qed

text \<open>
  C9: within one run of watch each event is printed at most once. After any number of
  passes through the loop, and in the final state when the loop returns, the ids of the
  events whose messages were printed are pairwise distinct and are exactly the ids in
  seen_events; an id in that set is not printed again.
\<close>

theorem watch_shows_each_event_once:
  "distinct (shown_ids (trace (watch_after answers jid n 0 watch_start))) \<and>
   set (shown_ids (trace (watch_after answers jid n 0 watch_start))) =
     seen_events (watch_after answers jid n 0 watch_start) \<and>
   (case watch_loop answers jid 0 watch_start of
      None \<Rightarrow> True
    | Some s' \<Rightarrow> distinct (shown_ids (trace s')) \<and> set (shown_ids (trace s')) = seen_events s')"
proof -
  have "shown_once (watch_after answers jid n 0 watch_start)"
    by (rule shown_once_watch_after) (rule shown_once_start)
  moreover have "shown_once s'" if "watch_loop answers jid 0 watch_start = Some s'" for s'
    using that shown_once_start by (rule shown_once_watch_loop)
  ultimately show ?thesis
    by (auto simp: shown_once_def split: option.splits)
qed

section \<open>Merging and deduplication in the generators\<close>

lemma first_by_key_Nil [simp]: "first_by_key key [] = []"
  by (simp add: first_by_key_def)





























text \<open>
  C3 (amended): every record built by an \<open>ex\<close> helper has exactly three messages, with the
  roles "system", "user" and "assistant" in that order, all non-empty; the content of the
  system message is the fixed non-empty \<open>SYS\<close> text, and the contents of the user and the
  assistant message are the prompt and the response passed in, whatever they are.
\<close>

theorem ex_record_shape:
  "roles_of (ex_v1 u a) =
     Inr [JStr (pstr ''system''), JStr (pstr ''user''), JStr (pstr ''assistant'')] \<and>
   contents_of (ex_v1 u a) = Inr [JStr SYS_v1, JStr u, JStr a] \<and>
   (\<exists>e. ex_v2 prompt response examples = examples @ [e] \<and>
      roles_of e = Inr [JStr (pstr ''system''), JStr (pstr ''user''), JStr (pstr ''assistant'')] \<and>
      contents_of e = Inr [JStr SYS_v2, JStr prompt, JStr response]) \<and>
   (\<exists>e. examples_v3 (snd (ex_v3 prompt response g)) =
          examples_v3 g @ (if fst (ex_v3 prompt response g) then [e] else []) \<and>
      roles_of e = Inr [JStr (pstr ''system''), JStr (pstr ''user''), JStr (pstr ''assistant'')] \<and>
      contents_of e = Inr [JStr SYS_v2, JStr prompt, JStr response]) \<and>
   SYS_v1 \<noteq> [] \<and> SYS_v2 \<noteq> [] \<and>
   pstr ''system'' \<noteq> [] \<and> pstr ''user'' \<noteq> [] \<and> pstr ''assistant'' \<noteq> []"
proof -
  have r: "roles_of (example sys p r) =
     Inr [JStr (pstr ''system''), JStr (pstr ''user''), JStr (pstr ''assistant'')]" for sys p r
    by (simp add: roles_of_def example_def msg_def dict_get_def)
  have c: "contents_of (example sys p r) = Inr [JStr sys, JStr p, JStr r]" for sys p r
    by (simp add: contents_of_def example_def msg_def dict_get_def)
  have s1: "SYS_v1 \<noteq> []" by (simp add: SYS_v1_def pstr_def)
  have s2: "SYS_v2 \<noteq> []" by (simp add: SYS_v2_def pstr_def)
  have n: "pstr ''system'' \<noteq> [] \<and> pstr ''user'' \<noteq> [] \<and> pstr ''assistant'' \<noteq> []"
    by (simp add: pstr_def)
  have v2: "\<exists>e. ex_v2 prompt response examples = examples @ [e] \<and>
      roles_of e = Inr [JStr (pstr ''system''), JStr (pstr ''user''), JStr (pstr ''assistant'')] \<and>
      contents_of e = Inr [JStr SYS_v2, JStr prompt, JStr response]"
    by (rule exI[of _ "example SYS_v2 prompt response"]) (simp add: ex_v2_def r c)
  have v3: "\<exists>e. examples_v3 (snd (ex_v3 prompt response g)) =
          examples_v3 g @ (if fst (ex_v3 prompt response g) then [e] else []) \<and>
      roles_of e = Inr [JStr (pstr ''system''), JStr (pstr ''user''), JStr (pstr ''assistant'')] \<and>
      contents_of e = Inr [JStr SYS_v2, JStr prompt, JStr response]"
    by (rule exI[of _ "example SYS_v2 prompt response"]) (simp add: ex_v3_def r c)
  from r c s1 s2 n v2 v3 show ?thesis by (simp add: ex_v1_def)
qed

text \<open>
  The claim as stated fails for an empty prompt and response: the record is appended with
  empty user and assistant contents.
\<close>

theorem ex_empty_content_counterexample:
  "contents_of (ex_v1 [] []) = Inr [JStr SYS_v1, JStr [], JStr []] \<and>
   contents_of (last (ex_v2 [] [] [])) = Inr [JStr SYS_v2, JStr [], JStr []] \<and>
   fst (ex_v3 [] [] start_v3) \<and>
   contents_of (last (examples_v3 (snd (ex_v3 [] [] start_v3)))) = Inr [JStr SYS_v2, JStr [], JStr []]"
  by (simp add: contents_of_def ex_v1_def ex_v2_def ex_v3_def start_v3_def example_def msg_def dict_get_def)

section \<open>The page generators\<close>


text \<open>Parts of the pages, computed.\<close>

lemma google_font_url_example:
  "google_font_url (pstr ''DM Sans'') (pstr ''Inter'') =
     Inr (pstr ''https://fonts.googleapis.com/css2?family=DM+Sans:wght@500;600;700&family=Inter:wght@400;500&display=swap'')"
  by (simp add: google_font_url_def py_replace_def pstr_def Let_def)

lemma stat_example:
  \<open>make_stats_html [(pstr ''99.9%'', pstr ''Uptime'')] =
     Inr (pstr ''<div class="stat"><div class="stat-val" data-target="99.9" data-suffix="%" data-decimal="1">0</div><div class="stat-label">Uptime</div></div>'')\<close>
  by (simp add: make_stats_html_def join_map_def stat_target_v4_def stat_suffix_v4_def py_replace_def pstr_def)

lemma page_v2_no_features:
  "features_v2 b = None \<Longrightarrow>
   page_v2 lib b f p is_dark False False ht hf hero_style card_style = Inl KeyError"
  by (simp add: page_v2_def pricing_html_v2_def stats_html_v2_def features_html_v2_def)

end
